theory Spec2Isabelle
  imports Complex_Main "HOL-Library.Multiset"
begin

section \<open>Content-based movie recommendation: the model\<close>

text \<open>
  The development follows \<^verbatim>\<open>src/recomendation.py\<close>. The script builds, at import time,
  a table \<^verbatim>\<open>movies\<close> and a matrix \<^verbatim>\<open>similarity_matrix\<close>, and defines three functions:
  \<^verbatim>\<open>get_top_actors\<close>, \<^verbatim>\<open>get_director\<close> and \<^verbatim>\<open>recommend_movie\<close>.

  Library code is not part of the script and is not modelled: \<^verbatim>\<open>ast.literal_eval\<close> is a
  parameter of the two helper functions, and the matrix computed by scikit-learn's
  \<^verbatim>\<open>cosine_similarity\<close> is a field of the state read by \<^verbatim>\<open>recommend_movie\<close>.
  Every exception the script's own code can raise is a value of \<open>py_error\<close>.
\<close>

datatype py_error = SyntaxError | ValueError | TypeError | KeyError | IndexError

subsection \<open>Python values produced by \<^verbatim>\<open>ast.literal_eval\<close>\<close>

text \<open>
  \<^verbatim>\<open>ast.literal_eval\<close> returns strings, bytes, numbers, tuples, lists, dicts, sets,
  booleans, \<^verbatim>\<open>None\<close> and \<^verbatim>\<open>Ellipsis\<close>. A dict is the list of its items in insertion
  order; a set is the list of its elements in iteration order.
\<close>

datatype pyval =
    PNone
  | PEllipsis
  | PBool bool
  | PInt int
  | PFloat real
  | PComplex real real
  | PStr string
  | PBytes "nat list"
  | PList "pyval list"
  | PTuple "pyval list"
  | PSet "pyval list"
  | PDict "(pyval \<times> pyval) list"

text \<open>
  \<^verbatim>\<open>person["name"]\<close>, \<^verbatim>\<open>person["job"]\<close>: subscription with a string key. A dict
  answers with the value or raises \<^verbatim>\<open>KeyError\<close>; every other literal value raises
  \<^verbatim>\<open>TypeError\<close> (a sequence wants an integer index, the rest is not subscriptable).
\<close>

definition getitem :: "pyval \<Rightarrow> string \<Rightarrow> py_error + pyval" where
  "getitem person k =
     (case person of
        PDict kvs \<Rightarrow> (case map_of kvs (PStr k) of None \<Rightarrow> Inl KeyError | Some v \<Rightarrow> Inr v)
      | _ \<Rightarrow> Inl TypeError)"

text \<open>\<^verbatim>\<open>cast[:3]\<close>: the sequence types are sliced, everything else raises.\<close>

definition slice_to_3 :: "pyval \<Rightarrow> py_error + pyval" where
  "slice_to_3 v =
     (case v of
        PList xs \<Rightarrow> Inr (PList (take 3 xs))
      | PTuple xs \<Rightarrow> Inr (PTuple (take 3 xs))
      | PStr s \<Rightarrow> Inr (PStr (take 3 s))
      | PBytes bs \<Rightarrow> Inr (PBytes (take 3 bs))
      | _ \<Rightarrow> Inl TypeError)"

text \<open>\<^verbatim>\<open>for person in v\<close>: the elements the loop visits, or \<^verbatim>\<open>TypeError\<close>.\<close>

definition py_iter :: "pyval \<Rightarrow> py_error + pyval list" where
  "py_iter v =
     (case v of
        PList xs \<Rightarrow> Inr xs
      | PTuple xs \<Rightarrow> Inr xs
      | PSet xs \<Rightarrow> Inr xs
      | PDict kvs \<Rightarrow> Inr (map fst kvs)
      | PStr s \<Rightarrow> Inr (map (\<lambda>c. PStr [c]) s)
      | PBytes bs \<Rightarrow> Inr (map (\<lambda>b. PInt (int b)) bs)
      | _ \<Rightarrow> Inl TypeError)"

subsection \<open>\<^verbatim>\<open>get_top_actors\<close>\<close>

text \<open>
  \<^verbatim>\<open>
  def get_top_actors(cast):
      names = []
      try:
          cast = ast.literal_eval(cast)
          for person in cast[:3]:  # top 3 actors
              names.append(person["name"])
      except:
          pass
      return " ".join(names)
  \<close>
  The loop appends to \<open>names\<close> until a subscription raises; the bare \<^verbatim>\<open>except\<close> then
  leaves the loop with the names appended so far. The \<^verbatim>\<open>join\<close> is outside the
  \<^verbatim>\<open>try\<close>: it raises \<^verbatim>\<open>TypeError\<close> when an appended value is not a string.
\<close>

fun append_names :: "pyval list \<Rightarrow> pyval list \<Rightarrow> pyval list" where
  "append_names names [] = names"
| "append_names names (person # rest) =
     (case getitem person ''name'' of
        Inl e \<Rightarrow> names
      | Inr v \<Rightarrow> append_names (names @ [v]) rest)"

definition as_str :: "pyval \<Rightarrow> string option" where
  "as_str v = (case v of PStr s \<Rightarrow> Some s | _ \<Rightarrow> None)"

fun join_strings :: "string \<Rightarrow> string list \<Rightarrow> string" where
  "join_strings sep [] = []"
| "join_strings sep [s] = s"
| "join_strings sep (s # t # rest) = s @ sep @ join_strings sep (t # rest)"

definition str_join :: "string \<Rightarrow> pyval list \<Rightarrow> py_error + string" where
  "str_join sep names =
     (case those (map as_str names) of
        None \<Rightarrow> Inl TypeError
      | Some ss \<Rightarrow> Inr (join_strings sep ss))"

definition get_top_actors :: "(string \<Rightarrow> py_error + pyval) \<Rightarrow> string \<Rightarrow> py_error + string" where
  "get_top_actors literal_eval cast =
     (let names =
        (case literal_eval cast of
           Inl e \<Rightarrow> []
         | Inr v \<Rightarrow>
            (case slice_to_3 v of
               Inl e \<Rightarrow> []
             | Inr s \<Rightarrow>
                (case py_iter s of
                   Inl e \<Rightarrow> []
                 | Inr persons \<Rightarrow> append_names [] persons)))
      in str_join '' '' names)"

subsection \<open>\<^verbatim>\<open>get_director\<close>\<close>

text \<open>
  \<^verbatim>\<open>
  def get_director(crew):
      try:
          crew = ast.literal_eval(crew)
          for person in crew:
              if person["job"] == "Director":
                  return person["name"]
      except:
          pass
      return ""
  \<close>
  The function returns whatever value the \<^verbatim>\<open>name\<close> field holds, so its result is a
  \<open>pyval\<close>. Comparing a literal value with \<^verbatim>\<open>"Director"\<close> never raises and is true
  for the string \<^verbatim>\<open>"Director"\<close> only.
\<close>

fun scan_crew :: "pyval list \<Rightarrow> pyval" where
  "scan_crew [] = PStr ''''"
| "scan_crew (person # rest) =
     (case getitem person ''job'' of
        Inl e \<Rightarrow> PStr ''''
      | Inr j \<Rightarrow>
         (if j = PStr ''Director''
          then (case getitem person ''name'' of Inl e \<Rightarrow> PStr '''' | Inr v \<Rightarrow> v)
          else scan_crew rest))"

definition get_director :: "(string \<Rightarrow> py_error + pyval) \<Rightarrow> string \<Rightarrow> pyval" where
  "get_director literal_eval crew =
     (case literal_eval crew of
        Inl e \<Rightarrow> PStr ''''
      | Inr v \<Rightarrow>
         (case py_iter v of
            Inl e \<Rightarrow> PStr ''''
          | Inr persons \<Rightarrow> scan_crew persons))"

subsection \<open>The combined text of one row\<close>

text \<open>
  \<^verbatim>\<open>
  movies["cast"] = movies["cast"].apply(get_top_actors)
  movies["crew"] = movies["crew"].apply(get_director)
  movies["combined_text"] = (
      movies["overview"] + " " + movies["cast"] + " " + movies["crew"])
  \<close>
  \<open>combined_text\<close> is the sum for one row. The overview and the cast part are strings
  (\<open>get_top_actors\<close> returns a string or raises); the crew part is the value
  \<open>get_director\<close> returned. The columns are added element by element, and a row has one of
  three outcomes:
  \<^item> the director value is a string: the row's text is the concatenation, \<open>Some text\<close>;
  \<^item> the director value is \<^verbatim>\<open>None\<close>: pandas treats it as missing, skips the row and
    leaves a missing value in the result, \<open>None\<close>; nothing is raised at this line;
  \<^item> the director value is anything else: \<^verbatim>\<open>str + value\<close> raises \<^verbatim>\<open>TypeError\<close>.

  \<open>row_signature\<close> runs the two helpers on a raw row first; an exception of
  \<open>get_top_actors\<close> (its \<^verbatim>\<open>join\<close>) ends the script before the sum.
\<close>

definition combined_text :: "string \<Rightarrow> string \<Rightarrow> pyval \<Rightarrow> py_error + string option" where
  "combined_text overview cast crew =
     (case crew of
        PStr director \<Rightarrow> Inr (Some (overview @ '' '' @ cast @ '' '' @ director))
      | PNone \<Rightarrow> Inr None
      | _ \<Rightarrow> Inl TypeError)"

definition row_signature ::
  "(string \<Rightarrow> py_error + pyval) \<Rightarrow> string \<Rightarrow> string \<Rightarrow> string \<Rightarrow> py_error + string option"
  where
  "row_signature literal_eval overview cast crew =
     (case get_top_actors literal_eval cast of
        Inl e \<Rightarrow> Inl e
      | Inr actors \<Rightarrow> combined_text overview actors (get_director literal_eval crew))"

subsection \<open>\<^verbatim>\<open>recommend_movie\<close>\<close>

text \<open>
  The state \<^verbatim>\<open>recommend_movie\<close> reads: the \<^verbatim>\<open>title\<close> column of \<^verbatim>\<open>movies\<close> in row
  order (the index of the merged table is \<open>0, 1, \<dots>\<close>, so labels are positions) and
  \<^verbatim>\<open>similarity_matrix\<close>. Scores are compared only, never computed with here; they are
  modelled as reals (no NaN).
\<close>

record catalog =
  title :: "string list"
  similarity_matrix :: "real list list"

text \<open>
  After \<^verbatim>\<open>cosine_similarity(tfidf_matrix)\<close> the matrix is square, with one row and one
  column per row of \<^verbatim>\<open>movies\<close>.
\<close>

definition square_catalog :: "catalog \<Rightarrow> bool" where
  "square_catalog c =
     (length (similarity_matrix c) = length (title c) \<and>
      list_all (\<lambda>row. length row = length (title c)) (similarity_matrix c))"

text \<open>\<^verbatim>\<open>movies[movies["title"] == movie_name].index[0]\<close>: the first matching position.\<close>

fun first_index :: "string list \<Rightarrow> string \<Rightarrow> nat option" where
  "first_index [] t = None"
| "first_index (x # xs) t = (if x = t then Some 0 else map_option Suc (first_index xs t))"

text \<open>\<^verbatim>\<open>similarity_matrix[index]\<close> and \<^verbatim>\<open>movies.iloc[i]\<close> at a non-negative position.\<close>

definition at_position :: "'a list \<Rightarrow> nat \<Rightarrow> py_error + 'a" where
  "at_position xs i = (if i < length xs then Inr (xs ! i) else Inl IndexError)"

text \<open>
  \<^verbatim>\<open>sorted(xs, key=key, reverse=True)\<close>: descending by key, and stable, so elements
  with equal keys keep their order in \<open>xs\<close>. A stable sort has one possible result; it is
  computed here by insertion, each element going in front of the first element whose key
  is not larger.
\<close>

fun insort_reverse :: "('a \<Rightarrow> 'k::linorder) \<Rightarrow> 'a \<Rightarrow> 'a list \<Rightarrow> 'a list" where
  "insort_reverse key x [] = [x]"
| "insort_reverse key x (y # ys) =
     (if key y \<le> key x then x # y # ys else y # insort_reverse key x ys)"

fun sorted_reverse :: "('a \<Rightarrow> 'k::linorder) \<Rightarrow> 'a list \<Rightarrow> 'a list" where
  "sorted_reverse key [] = []"
| "sorted_reverse key (x # xs) = insort_reverse key x (sorted_reverse key xs)"

text \<open>
  \<^verbatim>\<open>xs[start:stop]\<close> with integer bounds: a negative bound counts from the end, and
  both bounds are clipped to the list.
\<close>

definition py_slice :: "'a list \<Rightarrow> int \<Rightarrow> int \<Rightarrow> 'a list" where
  "py_slice xs start stop =
     (let n = int (length xs);
          lo = (if start < 0 then max 0 (n + start) else min start n);
          hi = (if stop < 0 then max 0 (n + stop) else min stop n)
      in take (nat (hi - lo)) (drop (nat lo) xs))"

text \<open>
  \<^verbatim>\<open>
  similarity_scores = list(enumerate(similarity_matrix[index]))
  similarity_scores = sorted(similarity_scores, key=lambda x: x[1], reverse=True)
  \<close>
\<close>

definition similarity_scores :: "real list \<Rightarrow> (nat \<times> real) list" where
  "similarity_scores row = sorted_reverse snd (enumerate 0 row)"

text \<open>
  \<^verbatim>\<open>
  for i in similarity_scores[1:top_n + 1]:
      recommendations.append(movies.iloc[i[0]]["title"])
  \<close>
\<close>

fun recommendations :: "string list \<Rightarrow> (nat \<times> real) list \<Rightarrow> py_error + string list" where
  "recommendations titles [] = Inr []"
| "recommendations titles (i # rest) =
     (case at_position titles (fst i) of
        Inl e \<Rightarrow> Inl e
      | Inr t \<Rightarrow>
         (case recommendations titles rest of
            Inl e \<Rightarrow> Inl e
          | Inr r \<Rightarrow> Inr (t # r)))"

text \<open>
  \<^verbatim>\<open>
  def recommend_movie(movie_name, top_n=5):
      if movie_name not in movies["title"].values:
          return ["Movie not found in database"]
      index = movies[movies["title"] == movie_name].index[0]
      similarity_scores = ...
      recommendations = []
      for i in similarity_scores[1:top_n + 1]: ...
      return recommendations
  \<close>
\<close>

definition recommend_movie :: "catalog \<Rightarrow> string \<Rightarrow> int \<Rightarrow> py_error + string list" where
  "recommend_movie c movie_name top_n =
     (if movie_name \<notin> set (title c) then Inr [''Movie not found in database'']
      else
        (case first_index (title c) movie_name of
           None \<Rightarrow> Inl IndexError
         | Some index \<Rightarrow>
            (case at_position (similarity_matrix c) index of
               Inl e \<Rightarrow> Inl e
             | Inr row \<Rightarrow>
                recommendations (title c)
                  (py_slice (similarity_scores row) 1 (top_n + 1)))))"

subsection \<open>Notions used to state the properties\<close>

text \<open>
  The order of a ranking: a higher score comes first, and of two entries with the same
  score the one with the smaller catalog index comes first.
\<close>

definition rank_before :: "nat \<times> real \<Rightarrow> nat \<times> real \<Rightarrow> bool" where
  "rank_before a b = (snd b < snd a \<or> (snd a = snd b \<and> fst a < fst b))"

text \<open>
  The entry of item \<open>i\<close> is ranked first in its own row: every item before it in the
  catalog scores strictly less, and no item after it scores more.
\<close>

definition ranks_first :: "nat \<Rightarrow> real list \<Rightarrow> bool" where
  "ranks_first i row =
     list_all (\<lambda>p. (fst p < i \<longrightarrow> snd p < row ! i) \<and> (i < fst p \<longrightarrow> snd p \<le> row ! i))
       (enumerate 0 row)"

subsection \<open>Example catalogs\<close>

definition three_movies :: catalog where
  "three_movies =
     \<lparr>title = [''Avatar'', ''Alien'', ''Titanic''],
      similarity_matrix = [[1, 1/2, 1/5], [1/2, 1, 0], [1/5, 0, 1]]\<rparr>"

definition identical_signatures :: catalog where
  "identical_signatures =
     \<lparr>title = [''Alien'', ''Aliens''], similarity_matrix = [[1, 1], [1, 1]]\<rparr>"

definition remake :: catalog where
  "remake = \<lparr>title = [''Dune'', ''Dune''], similarity_matrix = [[1, 1/2], [1/2, 1]]\<rparr>"

definition sentinel_title :: catalog where
  "sentinel_title =
     \<lparr>title = [''Avatar'', ''Movie not found in database''],
      similarity_matrix = [[1, 1/2], [1/2, 1]]\<rparr>"

definition trilogy :: catalog where
  "trilogy =
     \<lparr>title = [''Alien'', ''Dune'', ''Dune''],
      similarity_matrix = [[1, 1/5, 1/2], [1/5, 1, 0], [1/2, 0, 1]]\<rparr>"

text \<open>A record with a given key: a dict that has the key.\<close>

definition has_key :: "pyval \<Rightarrow> string \<Rightarrow> bool" where
  "has_key person k = (case person of PDict kvs \<Rightarrow> PStr k \<in> fst ` set kvs | _ \<Rightarrow> False)"

text \<open>A well-formed crew list: every record has a \<^verbatim>\<open>job\<close> and a \<^verbatim>\<open>name\<close>.\<close>

definition well_formed_crew :: "pyval list \<Rightarrow> bool" where
  "well_formed_crew recs = list_all (\<lambda>p. has_key p ''job'' \<and> has_key p ''name'') recs"

text \<open>A record whose job is exactly the string \<^verbatim>\<open>Director\<close>.\<close>

definition is_director :: "pyval \<Rightarrow> bool" where
  "is_director person = (getitem person ''job'' = Inr (PStr ''Director''))"

subsection \<open>Example encodings\<close>

definition avatar_cast :: string where
  "avatar_cast = ''[{'name': 'Sam Worthington'}, {'name': 'Zoe Saldana'}, {'id': 3}, {'name': 'Stephen Lang'}]''"

definition avatar_crew :: string where
  "avatar_crew = ''[{'job': 'Editor', 'name': 'Stephen Rivkin'}, {'job': 'Director', 'name': 'James Cameron'}, {'job': 'Director', 'name': 'Jon Landau'}]''"

text \<open>What \<^verbatim>\<open>ast.literal_eval\<close> does on the two encodings and on text that is no literal.\<close>

definition sample_literal_eval :: "string \<Rightarrow> py_error + pyval" where
  "sample_literal_eval s =
     (if s = avatar_cast
      then Inr (PList [PDict [(PStr ''name'', PStr ''Sam Worthington'')],
                       PDict [(PStr ''name'', PStr ''Zoe Saldana'')],
                       PDict [(PStr ''id'', PInt 3)],
                       PDict [(PStr ''name'', PStr ''Stephen Lang'')]])
      else if s = avatar_crew
      then Inr (PList [PDict [(PStr ''job'', PStr ''Editor''), (PStr ''name'', PStr ''Stephen Rivkin'')],
                       PDict [(PStr ''job'', PStr ''Director''), (PStr ''name'', PStr ''James Cameron'')],
                       PDict [(PStr ''job'', PStr ''Director''), (PStr ''name'', PStr ''Jon Landau'')]])
      else Inl SyntaxError)"

text \<open>Two encodings whose \<^verbatim>\<open>name\<close> fields hold numbers, and \<^verbatim>\<open>ast.literal_eval\<close> on them.\<close>

definition numeric_name_cast :: string where
  "numeric_name_cast = ''[{'name': 1}, {'id': 2}]''"

definition numeric_name_crew :: string where
  "numeric_name_crew = ''[{'job': 'Director', 'name': 5}]''"

definition numeric_literal_eval :: "string \<Rightarrow> py_error + pyval" where
  "numeric_literal_eval s =
     (if s = numeric_name_cast
      then Inr (PList [PDict [(PStr ''name'', PInt 1)], PDict [(PStr ''id'', PInt 2)]])
      else if s = numeric_name_crew
      then Inr (PList [PDict [(PStr ''job'', PStr ''Director''), (PStr ''name'', PInt 5)]])
      else Inl SyntaxError)"

section \<open>Properties\<close>

subsection \<open>The stable descending sort\<close>

lemma mset_insort_reverse: "mset (insort_reverse key x ys) = add_mset x (mset ys)"
  by (induction ys) auto

lemma mset_sorted_reverse: "mset (sorted_reverse key xs) = mset xs"
  by (induction xs) (auto simp: mset_insort_reverse)

lemma set_sorted_reverse: "set (sorted_reverse key xs) = set xs"
  using mset_sorted_reverse [of key xs] by (metis set_mset_mset)

lemma length_sorted_reverse: "length (sorted_reverse key xs) = length xs"
  using mset_sorted_reverse [of key xs] by (metis size_mset)

lemma rank_before_insort:
  "sorted_wrt rank_before ys \<Longrightarrow> (\<forall>y\<in>set ys. fst x < fst y)
    \<Longrightarrow> sorted_wrt rank_before (insort_reverse snd x ys)"
proof (induction ys)
  case Nil
  then show ?case by simp
next
  case (Cons y ys)
  show ?case
  proof (cases "snd y \<le> snd x")
    case True
    have "rank_before x z" if "z \<in> set (y # ys)" for z
    proof -
      have "snd z \<le> snd y"
        using that Cons.prems(1) by (auto simp: rank_before_def)
      moreover have "fst x < fst z" using that Cons.prems(2) by blast
      ultimately show ?thesis using True by (auto simp: rank_before_def)
    qed
    with True Cons.prems(1) show ?thesis by simp
  next
    case False
    have "sorted_wrt rank_before (insort_reverse snd x ys)"
      using Cons by simp
    moreover have "rank_before y z" if "z \<in> set (insort_reverse snd x ys)" for z
    proof -
      have "z = x \<or> z \<in> set ys"
        using that mset_insort_reverse [of snd x ys] by (metis insert_iff set_mset_add_mset_insert set_mset_mset)
      then show ?thesis using False Cons.prems(1) by (auto simp: rank_before_def)
    qed
    ultimately show ?thesis using False by simp
  qed
qed

lemma rank_before_sorted_reverse:
  "sorted_wrt (\<lambda>a b. fst a < fst b) xs \<Longrightarrow> sorted_wrt rank_before (sorted_reverse snd xs)"
proof (induction xs)
  case Nil
  then show ?case by simp
next
  case (Cons x xs)
  then have "\<forall>y\<in>set (sorted_reverse snd xs). fst x < fst y"
    by (simp add: set_sorted_reverse)
  with Cons show ?case by (simp add: rank_before_insort)
qed

lemma enumerate_fst_increasing: "sorted_wrt (\<lambda>a b. fst a < fst b) (enumerate n xs)"
proof -
  have "sorted_wrt (<) (map fst (enumerate n xs))" by simp
  then show ?thesis by (simp add: sorted_wrt_map del: map_fst_enumerate)
qed

lemma similarity_scores_ranked: "sorted_wrt rank_before (similarity_scores row)"
  unfolding similarity_scores_def
  by (rule rank_before_sorted_reverse) (rule enumerate_fst_increasing)

lemma mset_similarity_scores: "mset (similarity_scores row) = mset (enumerate 0 row)"
  by (simp add: similarity_scores_def mset_sorted_reverse)

lemma length_similarity_scores: "length (similarity_scores row) = length row"
  by (simp add: similarity_scores_def length_sorted_reverse)

lemma set_similarity_scores:
  "set (similarity_scores row) = {(i, row ! i) | i. i < length row}"
proof -
  have "set (similarity_scores row) = set (enumerate 0 row)"
    by (simp add: similarity_scores_def set_sorted_reverse)
  also have "\<dots> = {(i, row ! i) | i. i < length row}"
    by (auto simp: in_set_enumerate_eq)
  finally show ?thesis .
qed

lemma distinct_fst_similarity_scores: "distinct (map fst (similarity_scores row))"
proof -
  have "image_mset fst (mset (similarity_scores row)) = image_mset fst (mset (enumerate 0 row))"
    by (simp only: mset_similarity_scores)
  then have "mset (map fst (similarity_scores row)) = mset (map fst (enumerate 0 row))"
    by (simp only: mset_map)
  moreover have "distinct (map fst (enumerate 0 row))" by simp
  ultimately show ?thesis by (metis mset_eq_imp_distinct_iff)
qed

lemma recommendations_total:
  "\<forall>p\<in>set ps. fst p < length titles
    \<Longrightarrow> recommendations titles ps = Inr (map (\<lambda>p. titles ! fst p) ps)"
  by (induction ps) (auto simp: at_position_def)

lemma first_index_Some:
  "t \<in> set xs \<Longrightarrow> \<exists>i. first_index xs t = Some i"
  by (induction xs) auto

lemma first_index_least:
  "first_index xs t = Some i \<Longrightarrow> i < length xs \<and> xs ! i = t \<and> (\<forall>j<i. xs ! j \<noteq> t)"
proof (induction xs arbitrary: i)
  case Nil
  then show ?case by simp
next
  case (Cons x xs)
  show ?case
  proof (cases "x = t")
    case True
    with Cons.prems show ?thesis by simp
  next
    case False
    with Cons.prems obtain k where k: "first_index xs t = Some k" "i = Suc k"
      by auto
    from Cons.IH [OF k(1)] False k(2) show ?thesis
      by (auto simp: nth_Cons split: nat.splits)
  qed
qed

lemma set_py_slice_tl: "set (py_slice xs 1 stop) \<subseteq> set (tl xs)"
proof (cases xs)
  case Nil
  then show ?thesis by (simp add: py_slice_def)
next
  case (Cons x rest)
  then have "py_slice xs 1 stop = take (nat ((if stop < 0 then max 0 (int (length xs) + stop) else min stop (int (length xs))) - 1)) rest"
    by (simp add: py_slice_def Let_def)
  then show ?thesis using Cons by (metis list.sel(3) set_take_subset)
qed

lemma length_py_slice_from_1:
  "xs \<noteq> [] \<Longrightarrow> length (py_slice xs 1 (top_n + 1)) =
     (if 0 < top_n then min (nat top_n) (length xs - 1)
      else if - 1 \<le> top_n then 0
      else nat (int (length xs) + top_n))"
  by (cases xs) (auto simp: py_slice_def Let_def)

lemma recommend_movie_found:
  assumes "square_catalog c" and "first_index (title c) movie_name = Some i"
  shows "recommend_movie c movie_name top_n =
           Inr (map (\<lambda>p. title c ! fst p)
                  (py_slice (similarity_scores (similarity_matrix c ! i)) 1 (top_n + 1)))"
proof -
  let ?row = "similarity_matrix c ! i"
  from first_index_least [OF assms(2)]
  have i: "i < length (title c)" and t: "title c ! i = movie_name" by simp_all
  then have mem: "movie_name \<in> set (title c)" by (metis nth_mem)
  from assms(1) i have row: "at_position (similarity_matrix c) i = Inr ?row"
    and len: "length ?row = length (title c)"
    by (simp_all add: square_catalog_def at_position_def list_all_length)
  have "\<forall>p\<in>set (py_slice (similarity_scores ?row) 1 (top_n + 1)). fst p < length (title c)"
  proof
    fix p assume "p \<in> set (py_slice (similarity_scores ?row) 1 (top_n + 1))"
    then have "p \<in> set (tl (similarity_scores ?row))"
      using set_py_slice_tl [of "similarity_scores ?row" "top_n + 1"] by auto
    then have "p \<in> set (similarity_scores ?row)"
      by (metis list.sel(2) list.set_sel(2))
    then show "fst p < length (title c)"
      using len by (auto simp: set_similarity_scores)
  qed
  from recommendations_total [OF this] mem assms(2) row
  show ?thesis by (simp add: recommend_movie_def)
qed

subsection \<open>The recommender\<close>

lemmas eval_recommend =
  recommend_movie_def at_position_def similarity_scores_def py_slice_def enumerate_eq_zip
  upt_rec square_catalog_def

lemma rank_before_asym: "rank_before a b \<Longrightarrow> \<not> rank_before b a"
  by (auto simp: rank_before_def)

lemma ranked_unique:
  "sorted_wrt rank_before xs \<Longrightarrow> sorted_wrt rank_before ys \<Longrightarrow> set xs = set ys \<Longrightarrow> xs = ys"
proof (induction xs arbitrary: ys)
  case Nil
  then show ?case by simp
next
  case (Cons x xs)
  from Cons.prems(3) obtain y ys' where ys: "ys = y # ys'"
    by (cases ys) auto
  have xy: "x = y"
  proof (rule ccontr)
    assume neq: "x \<noteq> y"
    with Cons.prems(3) ys have "x \<in> set ys'" and "y \<in> set xs" by auto
    with Cons.prems(1,2) ys have "rank_before y x" and "rank_before x y" by auto
    then show False using rank_before_asym by blast
  qed
  have "x \<notin> set xs" using Cons.prems(1) rank_before_asym [of x x] by auto
  moreover have "y \<notin> set ys'" using Cons.prems(2) ys rank_before_asym [of y y] by auto
  ultimately have "set xs = set ys'" using Cons.prems(3) ys xy by auto
  with Cons.IH [of ys'] Cons.prems(1,2) ys xy show ?case by simp
qed

text \<open>
  C4. The ranking used by \<open>recommend_movie\<close> holds exactly the entries of the
  similarity row paired with their catalog indices, in descending order of score, entries
  of equal score in ascending order of catalog index. Only one list has these two
  properties, so the order is the same on every run.
\<close>

theorem ranking_descending_ties_by_index:
  "sorted_wrt rank_before (similarity_scores row) \<and>
   mset (similarity_scores row) = mset (enumerate 0 row) \<and>
   (\<forall>ys. mset ys = mset (enumerate 0 row) \<and> sorted_wrt rank_before ys
      \<longrightarrow> ys = similarity_scores row)"
proof (intro conjI allI impI)
  show "sorted_wrt rank_before (similarity_scores row)" by (rule similarity_scores_ranked)
  show "mset (similarity_scores row) = mset (enumerate 0 row)" by (rule mset_similarity_scores)
  fix ys assume a: "mset ys = mset (enumerate 0 row) \<and> sorted_wrt rank_before ys"
  then have "mset ys = mset (similarity_scores row)" by (simp add: mset_similarity_scores)
  then have "set ys = set (similarity_scores row)" by (rule mset_eq_setD)
  with a show "ys = similarity_scores row"
    using ranked_unique [OF _ similarity_scores_ranked] by blast
qed

theorem ranking_descending_ties_by_index_witness:
  "similarity_scores [1/2, 1, 1/2, 1] = [(1, 1), (3, 1), (0, 1/2), (2, 1/2)] \<and>
   sorted_wrt rank_before (similarity_scores [1/2, 1, 1/2, 1])"
proof -
  have m: "mset [(1::nat, 1::real), (3, 1), (0, 1/2), (2, 1/2)] = mset (enumerate 0 [1/2, 1, 1/2, 1::real])"
    by (simp add: enumerate_eq_zip upt_rec eval_nat_numeral add_mset_commute)
  have s: "sorted_wrt rank_before [(1::nat, 1::real), (3, 1), (0, 1/2), (2, 1/2)]"
    by (simp add: rank_before_def)
  from ranking_descending_ties_by_index [of "[1/2, 1, 1/2, 1]"] m s show ?thesis
    by metis
qed

lemma recommend_movie_length:
  assumes "square_catalog c" and "movie_name \<in> set (title c)"
  shows "\<exists>r. recommend_movie c movie_name top_n = Inr r \<and>
           length r =
             (if 0 < top_n then min (nat top_n) (length (title c) - 1)
              else if - 1 \<le> top_n then 0
              else nat (int (length (title c)) + top_n))"
proof -
  from first_index_Some [OF assms(2)] obtain i
    where i: "first_index (title c) movie_name = Some i" by blast
  let ?row = "similarity_matrix c ! i"
  from first_index_least [OF i] assms(1) have "length ?row = length (title c)"
    and "0 < length (title c)"
    by (auto simp: square_catalog_def list_all_length)
  then have "length (similarity_scores ?row) = length (title c)"
    and "similarity_scores ?row \<noteq> []"
    using length_similarity_scores [of ?row] by auto
  with length_py_slice_from_1 [of "similarity_scores ?row" top_n]
    recommend_movie_found [OF assms(1) i, of top_n]
  show ?thesis by simp
qed

text \<open>
  C5. On a catalog of \<open>N\<close> items, for a title of the catalog and \<open>top_n > 0\<close>,
  \<open>recommend_movie\<close> raises nothing and returns exactly \<open>min(top_n, N - 1)\<close> titles, hence
  at most \<open>top_n\<close>.
\<close>

theorem recommend_count_positive_top_n:
  assumes "square_catalog c" and "movie_name \<in> set (title c)" and "0 < top_n"
  shows "\<exists>r. recommend_movie c movie_name top_n = Inr r \<and>
           length r = min (nat top_n) (length (title c) - 1) \<and> int (length r) \<le> top_n"
  using recommend_movie_length [OF assms(1,2), of top_n] assms(3) by auto

theorem recommend_count_positive_top_n_witness:
  "square_catalog three_movies \<and> ''Avatar'' \<in> set (title three_movies) \<and> (0::int) < 5 \<and>
   (\<exists>r. recommend_movie three_movies ''Avatar'' 5 = Inr r \<and> length r = 2)"
proof -
  have h: "square_catalog three_movies" "''Avatar'' \<in> set (title three_movies)" "(0::int) < 5"
    by (simp_all add: three_movies_def square_catalog_def)
  have n: "length (title three_movies) = 3" by (simp add: three_movies_def)
  from recommend_count_positive_top_n [OF h] n h show ?thesis by auto
qed

text \<open>
  C3. The claim that every \<open>top_n \<le> 0\<close> gives an empty result fails: the slice
  \<open>[1:top_n + 1]\<close> has a negative end for \<open>top_n \<le> - 2\<close>, which Python counts from the end
  of the list.
\<close>

theorem nonpositive_top_n_counterexample:
  "(- 2 :: int) \<le> 0 \<and> ''Avatar'' \<in> set (title three_movies) \<and>
   recommend_movie three_movies ''Avatar'' (- 2) = Inr [''Alien'']"
  by (simp add: three_movies_def eval_recommend)

text \<open>
  C3, as amended. For a title of the catalog and \<open>top_n \<le> 0\<close>, \<open>recommend_movie\<close> raises
  nothing; it returns no title when \<open>top_n\<close> is \<open>0\<close> or \<open>- 1\<close>, and \<open>max(0, N + top_n)\<close>
  titles when \<open>top_n \<le> - 2\<close>, so the result is empty exactly when \<open>top_n \<ge> - 1\<close> or
  \<open>top_n \<le> - N\<close>.
\<close>

theorem nonpositive_top_n:
  assumes "square_catalog c" and "movie_name \<in> set (title c)" and "top_n \<le> 0"
  shows "\<exists>r. recommend_movie c movie_name top_n = Inr r \<and>
           length r = (if - 1 \<le> top_n then 0 else nat (int (length (title c)) + top_n)) \<and>
           (r = [] \<longleftrightarrow> - 1 \<le> top_n \<or> top_n \<le> - int (length (title c)))"
proof -
  from recommend_movie_length [OF assms(1,2), of top_n] assms(3)
  obtain r where r: "recommend_movie c movie_name top_n = Inr r"
    "length r = (if - 1 \<le> top_n then 0 else nat (int (length (title c)) + top_n))"
    by auto
  from r(2) have "r = [] \<longleftrightarrow> - 1 \<le> top_n \<or> top_n \<le> - int (length (title c))"
    by (auto split: if_splits)
  with r show ?thesis by blast
qed

theorem nonpositive_top_n_witness:
  "square_catalog three_movies \<and> ''Avatar'' \<in> set (title three_movies) \<and> (0::int) \<le> 0 \<and>
   recommend_movie three_movies ''Avatar'' 0 = Inr []"
proof -
  have h: "square_catalog three_movies" "''Avatar'' \<in> set (title three_movies)" "(0::int) \<le> 0"
    by (simp_all add: three_movies_def square_catalog_def)
  from nonpositive_top_n [OF h] h show ?thesis by auto
qed

lemma recommendations_from_catalog:
  "recommendations titles ps = Inr r \<Longrightarrow> set r \<subseteq> set titles"
proof (induction ps arbitrary: r)
  case Nil
  then show ?case by simp
next
  case (Cons p ps)
  then show ?case
    by (auto simp: at_position_def split: if_splits sum.splits)
qed

lemma recommend_movie_from_catalog:
  assumes "t \<in> set (title c)" and "recommend_movie c t n = Inr r"
  shows "set r \<subseteq> set (title c)"
  using assms recommendations_from_catalog [of "title c" _ r]
  by (auto simp: recommend_movie_def split: option.splits sum.splits)

text \<open>
  C2. The claim that the outcome for an unknown title can be told apart from every valid
  recommendation list fails: the outcome is itself a list of one string, and a catalog
  may hold a movie of that name.
\<close>

theorem not_found_outcome_counterexample:
  "''Avatar'' \<in> set (title sentinel_title) \<and>
   ''Nonexistent Movie'' \<notin> set (title sentinel_title) \<and>
   recommend_movie sentinel_title ''Nonexistent Movie'' 1 =
     recommend_movie sentinel_title ''Avatar'' 1"
  by (simp add: sentinel_title_def eval_recommend)

text \<open>
  C2, as amended. For a title that is not in the catalog and every \<open>top_n\<close>,
  \<open>recommend_movie\<close> raises nothing and returns the one-element list
  \<^verbatim>\<open>["Movie not found in database"]\<close>, which is not empty; when no movie of the catalog
  has that string as its title, no lookup of a title of the catalog returns this list.
\<close>

theorem not_found_outcome:
  assumes "movie_name \<notin> set (title c)"
  shows "recommend_movie c movie_name top_n = Inr [''Movie not found in database''] \<and>
         (''Movie not found in database'' \<notin> set (title c) \<longrightarrow>
            (\<forall>t n. t \<in> set (title c) \<longrightarrow>
               recommend_movie c t n \<noteq> Inr [''Movie not found in database'']))"
proof (intro conjI impI allI)
  show "recommend_movie c movie_name top_n = Inr [''Movie not found in database'']"
    using assms by (simp add: recommend_movie_def)
next
  fix t n
  assume absent: "''Movie not found in database'' \<notin> set (title c)"
    and t: "t \<in> set (title c)"
  show "recommend_movie c t n \<noteq> Inr [''Movie not found in database'']"
  proof
    assume "recommend_movie c t n = Inr [''Movie not found in database'']"
    from recommend_movie_from_catalog [OF t this] absent show False by simp
  qed
qed

theorem not_found_outcome_witness:
  "''Nonexistent Movie'' \<notin> set (title three_movies) \<and>
   ''Movie not found in database'' \<notin> set (title three_movies) \<and>
   ''Avatar'' \<in> set (title three_movies) \<and>
   recommend_movie three_movies ''Nonexistent Movie'' 5 = Inr [''Movie not found in database''] \<and>
   recommend_movie three_movies ''Avatar'' 1 \<noteq> Inr [''Movie not found in database'']"
proof -
  have h: "''Nonexistent Movie'' \<notin> set (title three_movies)"
    and a: "''Movie not found in database'' \<notin> set (title three_movies)"
    and t: "''Avatar'' \<in> set (title three_movies)"
    by (simp_all add: three_movies_def)
  from not_found_outcome [OF h, of 5] a t h show ?thesis by blast
qed

text \<open>
  C9. A lookup of a title of the catalog uses the first row with that title: the index
  \<open>recommend_movie\<close> computes is a row with the query title, no earlier row has it, and
  the result is read off the similarity row of that index.
\<close>

theorem duplicate_title_uses_first_row:
  assumes "movie_name \<in> set (title c)"
  shows "\<exists>i. first_index (title c) movie_name = Some i \<and>
           i < length (title c) \<and> title c ! i = movie_name \<and>
           (\<forall>j<i. title c ! j \<noteq> movie_name) \<and>
           recommend_movie c movie_name top_n =
             (case at_position (similarity_matrix c) i of
                Inl e \<Rightarrow> Inl e
              | Inr row \<Rightarrow>
                 recommendations (title c) (py_slice (similarity_scores row) 1 (top_n + 1)))"
proof -
  from first_index_Some [OF assms] obtain i
    where i: "first_index (title c) movie_name = Some i" by blast
  from first_index_least [OF i] i assms show ?thesis
    by (simp add: recommend_movie_def)
qed

theorem duplicate_title_uses_first_row_witness:
  "''Dune'' \<in> set (title trilogy) \<and> first_index (title trilogy) ''Dune'' = Some 1 \<and>
   recommend_movie trilogy ''Dune'' 1 = Inr [''Alien'']"
proof -
  have h: "''Dune'' \<in> set (title trilogy)" by (simp add: trilogy_def)
  have e: "recommend_movie trilogy ''Dune'' 1 = Inr [''Alien'']"
    by (simp add: trilogy_def eval_recommend)
  from duplicate_title_uses_first_row [OF h, of 1] h e show ?thesis
    by (auto simp: trilogy_def)
qed

lemma ranks_first_iff:
  "ranks_first i row \<longleftrightarrow>
     (\<forall>j<length row. (j < i \<longrightarrow> row ! j < row ! i) \<and> (i < j \<longrightarrow> row ! j \<le> row ! i))"
proof -
  have "set (enumerate 0 row) = (\<lambda>j. (j, row ! j)) ` {..<length row}"
    by (auto simp: in_set_enumerate_eq)
  then show ?thesis
    by (auto simp: ranks_first_def list_all_iff)
qed

lemma ranks_first_head:
  assumes "i < length row" and "ranks_first i row"
  shows "\<exists>rest. similarity_scores row = (i, row ! i) # rest \<and> i \<notin> fst ` set rest"
proof -
  have mem: "(i, row ! i) \<in> set (similarity_scores row)"
    using assms(1) by (auto simp: set_similarity_scores)
  then obtain h rest where hr: "similarity_scores row = h # rest"
    by (cases "similarity_scores row") auto
  have "h \<in> set (similarity_scores row)" using hr by simp
  then obtain j where j: "j < length row" "h = (j, row ! j)"
    by (auto simp: set_similarity_scores)
  have h: "h = (i, row ! i)"
  proof (rule ccontr)
    assume "h \<noteq> (i, row ! i)"
    with mem hr have "(i, row ! i) \<in> set rest" by auto
    with similarity_scores_ranked [of row] hr have "rank_before h (i, row ! i)" by auto
    with j assms(2) show False
      by (auto simp: rank_before_def ranks_first_iff)
  qed
  from distinct_fst_similarity_scores [of row] hr h have "i \<notin> fst ` set rest" by simp
  with hr h show ?thesis by blast
qed

lemma single_occurrence:
  assumes "length (filter (\<lambda>t. t = x) xs) = 1"
    and "i < length xs" and "j < length xs" and "xs ! i = x" and "xs ! j = x"
  shows "i = j"
proof -
  let ?S = "{k. k < length xs \<and> xs ! k = x}"
  from assms(1) have "card ?S = 1" by (simp add: length_filter_conv_card)
  then obtain k where "?S = {k}" by (rule card_1_singletonE)
  moreover have "i \<in> ?S" and "j \<in> ?S" using assms by simp_all
  ultimately show ?thesis by auto
qed

text \<open>
  C1. The claim that the query's own title never appears fails twice over: a second row
  with the same title is recommended like any other row, and a row that ties with the
  query's own score and comes earlier in the catalog pushes the query out of rank 0, the
  only rank the slice skips.
\<close>

theorem own_title_excluded_counterexample:
  "''Dune'' \<in> set (title remake) \<and> recommend_movie remake ''Dune'' 5 = Inr [''Dune''] \<and>
   ''Aliens'' \<in> set (title identical_signatures) \<and>
   recommend_movie identical_signatures ''Aliens'' 5 = Inr [''Aliens'']"
  by (simp add: remake_def identical_signatures_def eval_recommend)

text \<open>
  C1, as amended. When the query title is the title of one row only, and the entry of that
  row is ranked first in its own similarity row (it scores strictly more than every
  earlier row of the catalog and at least as much as every later one), the result of
  \<open>recommend_movie\<close> does not contain the query title.
\<close>

theorem own_title_excluded:
  assumes "square_catalog c"
    and "first_index (title c) movie_name = Some i"
    and "length (filter (\<lambda>t. t = movie_name) (title c)) = 1"
    and "ranks_first i (similarity_matrix c ! i)"
  shows "\<exists>r. recommend_movie c movie_name top_n = Inr r \<and> movie_name \<notin> set r"
proof -
  let ?row = "similarity_matrix c ! i"
  let ?picked = "py_slice (similarity_scores ?row) 1 (top_n + 1)"
  from first_index_least [OF assms(2)]
  have i: "i < length (title c)" and t: "title c ! i = movie_name" by simp_all
  from assms(1) i have len: "length ?row = length (title c)"
    by (simp add: square_catalog_def list_all_length)
  with i assms(4) obtain rest
    where rest: "similarity_scores ?row = (i, ?row ! i) # rest" "i \<notin> fst ` set rest"
    using ranks_first_head [of i ?row] by auto
  have picked: "fst p \<noteq> i \<and> fst p < length (title c)" if "p \<in> set ?picked" for p
  proof -
    from that set_py_slice_tl [of "similarity_scores ?row" "top_n + 1"] rest(1)
    have p: "p \<in> set rest" by auto
    then have "p \<in> set (similarity_scores ?row)" using rest(1) by simp
    then have "fst p < length (title c)" using len by (auto simp: set_similarity_scores)
    with p rest(2) show ?thesis by auto
  qed
  have "title c ! fst p \<noteq> movie_name" if "p \<in> set ?picked" for p
    using picked [OF that] single_occurrence [OF assms(3) _ i _ t, of "fst p"] by auto
  then have "movie_name \<notin> set (map (\<lambda>p. title c ! fst p) ?picked)" by auto
  with recommend_movie_found [OF assms(1,2), of top_n] show ?thesis by simp
qed

theorem own_title_excluded_witness:
  "square_catalog three_movies \<and> first_index (title three_movies) ''Alien'' = Some 1 \<and>
   length (filter (\<lambda>t. t = ''Alien'') (title three_movies)) = 1 \<and>
   ranks_first 1 (similarity_matrix three_movies ! 1) \<and>
   (\<exists>r. recommend_movie three_movies ''Alien'' 5 = Inr r \<and> ''Alien'' \<notin> set r)"
proof -
  have h: "square_catalog three_movies" "first_index (title three_movies) ''Alien'' = Some 1"
    "length (filter (\<lambda>t. t = ''Alien'') (title three_movies)) = 1"
    "ranks_first 1 (similarity_matrix three_movies ! 1)"
    by (simp_all add: three_movies_def square_catalog_def ranks_first_def enumerate_eq_zip upt_rec)
  from own_title_excluded [OF h, of 5] h show ?thesis by blast
qed

subsection \<open>The signature builder\<close>

lemma get_top_actors_parse_error:
  "literal_eval cast = Inl e \<Longrightarrow> get_top_actors literal_eval cast = Inr ''''"
  by (simp add: get_top_actors_def str_join_def)

lemma get_director_parse_error:
  "literal_eval crew = Inl e \<Longrightarrow> get_director literal_eval crew = PStr ''''"
  by (simp add: get_director_def)

text \<open>
  C7. The claim that a row whose cast or crew field fails to parse is given its signature
  without any error fails: the other field of the row can still stop the script. Here the
  cast field is no literal and the director's name in the crew field is the number 5, and
  the sum of the columns raises \<^verbatim>\<open>TypeError\<close>.
\<close>

theorem malformed_field_is_empty_part_counterexample:
  "numeric_literal_eval ''[{'name': 'Sam'' = Inl SyntaxError \<and>
   get_director numeric_literal_eval numeric_name_crew = PInt 5 \<and>
   row_signature numeric_literal_eval ''A marine'' ''[{'name': 'Sam'' numeric_name_crew
     = Inl TypeError"
  by (simp add: numeric_literal_eval_def numeric_name_cast_def numeric_name_crew_def
      row_signature_def combined_text_def get_top_actors_def get_director_def str_join_def
      py_iter_def getitem_def)

text \<open>
  C7, as amended. When \<^verbatim>\<open>ast.literal_eval\<close> raises on the cast field, \<open>get_top_actors\<close>
  raises nothing and returns the empty string; when it raises on the crew field,
  \<open>get_director\<close> returns the empty string. When both fields fail, nothing is raised and
  the signature is the overview followed by the empty participant and director parts,
  joined by single spaces. When the cast field alone fails, the signature is the overview,
  a space, the empty string, a space and the director, provided the director value taken
  from the crew field is a string; when the crew field alone fails, it is the overview, a
  space, the names, a space and the empty string, provided \<open>get_top_actors\<close> returns on
  the cast field.
\<close>

theorem malformed_field_is_empty_part:
  "(literal_eval cast = Inl e \<longrightarrow> get_top_actors literal_eval cast = Inr '''') \<and>
   (literal_eval crew = Inl e' \<longrightarrow> get_director literal_eval crew = PStr '''') \<and>
   (literal_eval cast = Inl e \<and> get_director literal_eval crew = PStr d \<longrightarrow>
      row_signature literal_eval overview cast crew
        = Inr (Some (overview @ '' '' @ '''' @ '' '' @ d))) \<and>
   (literal_eval crew = Inl e' \<and> get_top_actors literal_eval cast = Inr a \<longrightarrow>
      row_signature literal_eval overview cast crew
        = Inr (Some (overview @ '' '' @ a @ '' '' @ ''''))) \<and>
   (literal_eval cast = Inl e \<and> literal_eval crew = Inl e' \<longrightarrow>
      row_signature literal_eval overview cast crew
        = Inr (Some (overview @ '' '' @ '''' @ '' '' @ '''')))"
proof (intro conjI impI)
  show "get_top_actors literal_eval cast = Inr ''''" if "literal_eval cast = Inl e"
    using that by (rule get_top_actors_parse_error)
  show "get_director literal_eval crew = PStr ''''" if "literal_eval crew = Inl e'"
    using that by (rule get_director_parse_error)
  show "row_signature literal_eval overview cast crew
          = Inr (Some (overview @ '' '' @ '''' @ '' '' @ d))"
    if "literal_eval cast = Inl e \<and> get_director literal_eval crew = PStr d"
    using that get_top_actors_parse_error [of literal_eval cast e]
    by (simp add: row_signature_def combined_text_def)
  show "row_signature literal_eval overview cast crew
          = Inr (Some (overview @ '' '' @ a @ '' '' @ ''''))"
    if "literal_eval crew = Inl e' \<and> get_top_actors literal_eval cast = Inr a"
    using that get_director_parse_error [of literal_eval crew e']
    by (simp add: row_signature_def combined_text_def)
  show "row_signature literal_eval overview cast crew
          = Inr (Some (overview @ '' '' @ '''' @ '' '' @ ''''))"
    if "literal_eval cast = Inl e \<and> literal_eval crew = Inl e'"
    using that get_top_actors_parse_error [of literal_eval cast e]
      get_director_parse_error [of literal_eval crew e']
    by (simp add: row_signature_def combined_text_def)
qed

theorem malformed_field_is_empty_part_witness:
  "sample_literal_eval ''[{'name': 'Sam'' = Inl SyntaxError \<and>
   sample_literal_eval '''' = Inl SyntaxError \<and>
   get_top_actors sample_literal_eval ''[{'name': 'Sam'' = Inr '''' \<and>
   get_director sample_literal_eval '''' = PStr '''' \<and>
   row_signature sample_literal_eval ''A marine'' ''[{'name': 'Sam'' ''''
     = Inr (Some ''A marine  '')"
proof -
  have c: "sample_literal_eval ''[{'name': 'Sam'' = Inl SyntaxError"
    and k: "sample_literal_eval '''' = Inl SyntaxError"
    by (simp_all add: sample_literal_eval_def avatar_cast_def avatar_crew_def)
  from malformed_field_is_empty_part
    [of sample_literal_eval "''[{'name': 'Sam''" SyntaxError "''''" SyntaxError "''''"
      "''A marine''" "''''"]
    c k
  show ?thesis by simp
qed

lemma has_key_getitem: "has_key p k \<Longrightarrow> \<exists>v. getitem p k = Inr v"
proof (cases p)
  case (PDict kvs)
  assume "has_key p k"
  with PDict have "PStr k \<in> fst ` set kvs" by (simp add: has_key_def)
  then obtain v where "map_of kvs (PStr k) = Some v"
    by (metis map_of_eq_None_iff not_None_eq)
  with PDict show ?thesis by (simp add: getitem_def)
qed (simp_all add: has_key_def)

lemma scan_crew_find:
  "well_formed_crew recs \<Longrightarrow>
     (case find is_director recs of
        None \<Rightarrow> scan_crew recs = PStr ''''
      | Some p \<Rightarrow> getitem p ''name'' = Inr (scan_crew recs))"
proof (induction recs)
  case Nil
  then show ?case by simp
next
  case (Cons p recs)
  then have wf: "well_formed_crew recs" and "has_key p ''job''" and "has_key p ''name''"
    by (simp_all add: well_formed_crew_def)
  then obtain j v where j: "getitem p ''job'' = Inr j" and v: "getitem p ''name'' = Inr v"
    using has_key_getitem by blast
  show ?case
  proof (cases "j = PStr ''Director''")
    case True
    with j v show ?thesis by (simp add: is_director_def)
  next
    case False
    with j Cons.IH [OF wf] show ?thesis
      by (auto simp: is_director_def split: option.splits)
  qed
qed

text \<open>
  C8. On a crew field that parses to a list of records which all have a \<^verbatim>\<open>job\<close> and a
  \<^verbatim>\<open>name\<close>, \<open>get_director\<close> returns the name of the first record, in list order, whose
  job is exactly the string \<^verbatim>\<open>Director\<close>, and the empty string when there is none.
\<close>

theorem get_director_first_match:
  assumes "literal_eval crew = Inr (PList recs)" and "well_formed_crew recs"
  shows "case find is_director recs of
           None \<Rightarrow> get_director literal_eval crew = PStr ''''
         | Some p \<Rightarrow> getitem p ''name'' = Inr (get_director literal_eval crew)"
  using scan_crew_find [OF assms(2)] assms(1)
  by (auto simp: get_director_def py_iter_def split: option.splits)

theorem get_director_first_match_witness:
  "sample_literal_eval avatar_crew =
     Inr (PList [PDict [(PStr ''job'', PStr ''Editor''), (PStr ''name'', PStr ''Stephen Rivkin'')],
                 PDict [(PStr ''job'', PStr ''Director''), (PStr ''name'', PStr ''James Cameron'')],
                 PDict [(PStr ''job'', PStr ''Director''), (PStr ''name'', PStr ''Jon Landau'')]]) \<and>
   well_formed_crew
     [PDict [(PStr ''job'', PStr ''Editor''), (PStr ''name'', PStr ''Stephen Rivkin'')],
      PDict [(PStr ''job'', PStr ''Director''), (PStr ''name'', PStr ''James Cameron'')],
      PDict [(PStr ''job'', PStr ''Director''), (PStr ''name'', PStr ''Jon Landau'')]] \<and>
   get_director sample_literal_eval avatar_crew = PStr ''James Cameron''"
proof -
  let ?recs = "[PDict [(PStr ''job'', PStr ''Editor''), (PStr ''name'', PStr ''Stephen Rivkin'')],
      PDict [(PStr ''job'', PStr ''Director''), (PStr ''name'', PStr ''James Cameron'')],
      PDict [(PStr ''job'', PStr ''Director''), (PStr ''name'', PStr ''Jon Landau'')]]"
  have p: "sample_literal_eval avatar_crew = Inr (PList ?recs)"
    by (simp add: sample_literal_eval_def avatar_cast_def avatar_crew_def)
  have w: "well_formed_crew ?recs"
    by (simp add: well_formed_crew_def has_key_def)
  from get_director_first_match [of sample_literal_eval avatar_crew ?recs, OF p w] p w
  show ?thesis
    by (simp add: is_director_def getitem_def)
qed

lemma append_names_stops:
  "map (\<lambda>p. getitem p ''name'') pre = map Inr vs \<Longrightarrow> getitem bad ''name'' = Inl e
    \<Longrightarrow> append_names acc (pre @ bad # later) = acc @ vs"
proof (induction pre arbitrary: acc vs)
  case Nil
  then show ?case by simp
next
  case (Cons p pre)
  then obtain v vs' where vs: "vs = v # vs'" "getitem p ''name'' = Inr v"
    "map (\<lambda>p. getitem p ''name'') pre = map Inr vs'"
    by (cases vs) auto
  from Cons.IH [OF vs(3) Cons.prems(2), of "acc @ [v]"] vs(1,2) show ?case by simp
qed

lemma str_join_strings: "str_join sep (map PStr names) = Inr (join_strings sep names)"
proof -
  have "those (map as_str (map PStr names)) = Some names"
    by (induction names) (simp_all add: as_str_def)
  then show ?thesis by (simp add: str_join_def)
qed

text \<open>
  C10. The claim that \<open>get_top_actors\<close> returns the names collected before the first
  record without a \<^verbatim>\<open>name\<close> key fails when a collected name is not a string: the
  \<^verbatim>\<open>join\<close> is outside the \<^verbatim>\<open>try\<close>, and \<open>get_top_actors\<close> raises \<^verbatim>\<open>TypeError\<close>
  instead of returning.
\<close>

theorem get_top_actors_partial_counterexample:
  "numeric_literal_eval numeric_name_cast
     = Inr (PList [PDict [(PStr ''name'', PInt 1)], PDict [(PStr ''id'', PInt 2)]]) \<and>
   getitem (PDict [(PStr ''name'', PInt 1)]) ''name'' = Inr (PInt 1) \<and>
   getitem (PDict [(PStr ''id'', PInt 2)]) ''name'' = Inl KeyError \<and>
   get_top_actors numeric_literal_eval numeric_name_cast = Inl TypeError"
  by (simp add: numeric_literal_eval_def numeric_name_cast_def get_top_actors_def
      slice_to_3_def py_iter_def getitem_def str_join_def as_str_def)

text \<open>
  C10, as amended. When the cast field parses to a list of records and, among its first
  three records, the one after the records \<open>pre\<close> has no \<^verbatim>\<open>name\<close> key, and the names
  of the records \<open>pre\<close> are strings, \<open>get_top_actors\<close> returns these names joined by
  single spaces: the names collected before the failing record, whatever records follow
  it.
\<close>

theorem get_top_actors_partial:
  assumes "literal_eval cast = Inr (PList (pre @ bad # rest))"
    and "length pre < 3"
    and "map (\<lambda>p. getitem p ''name'') pre = map (\<lambda>n. Inr (PStr n)) names"
    and "getitem bad ''name'' = Inl KeyError"
  shows "get_top_actors literal_eval cast = Inr (join_strings '' '' names)"
proof -
  have "take 3 (pre @ bad # rest) = pre @ bad # take (2 - length pre) rest"
    using assms(2) by (simp add: take_Cons' numeral_3_eq_3 numeral_2_eq_2)
  moreover have "map (\<lambda>p. getitem p ''name'') pre = map Inr (map PStr names)"
    using assms(3) by simp
  ultimately have "append_names [] (take 3 (pre @ bad # rest)) = map PStr names"
    using append_names_stops [of pre "map PStr names" bad KeyError "[]"] assms(4) by simp
  then show ?thesis
    using assms(1) by (simp add: get_top_actors_def slice_to_3_def py_iter_def str_join_strings)
qed

theorem get_top_actors_partial_witness:
  "sample_literal_eval avatar_cast =
     Inr (PList ([PDict [(PStr ''name'', PStr ''Sam Worthington'')],
                  PDict [(PStr ''name'', PStr ''Zoe Saldana'')]]
                 @ PDict [(PStr ''id'', PInt 3)]
                 # [PDict [(PStr ''name'', PStr ''Stephen Lang'')]])) \<and>
   getitem (PDict [(PStr ''id'', PInt 3)]) ''name'' = Inl KeyError \<and>
   get_top_actors sample_literal_eval avatar_cast = Inr ''Sam Worthington Zoe Saldana''"
proof -
  let ?pre = "[PDict [(PStr ''name'', PStr ''Sam Worthington'')],
               PDict [(PStr ''name'', PStr ''Zoe Saldana'')]]"
  let ?bad = "PDict [(PStr ''id'', PInt 3)]"
  let ?rest = "[PDict [(PStr ''name'', PStr ''Stephen Lang'')]]"
  have p: "sample_literal_eval avatar_cast = Inr (PList (?pre @ ?bad # ?rest))"
    by (simp add: sample_literal_eval_def avatar_cast_def)
  have l: "length ?pre < 3" by simp
  have n: "map (\<lambda>p. getitem p ''name'') ?pre
             = map (\<lambda>n. Inr (PStr n)) [''Sam Worthington'', ''Zoe Saldana'']"
    by (simp add: getitem_def)
  have b: "getitem ?bad ''name'' = Inl KeyError" by (simp add: getitem_def)
  from get_top_actors_partial
    [of sample_literal_eval avatar_cast ?pre ?bad ?rest "[''Sam Worthington'', ''Zoe Saldana'']",
      OF p l n b] p b
  show ?thesis by simp
qed

end
